theory Spec2Isabelle
  imports Complex_Main "HOL-Library.Sublist" "HOL-Library.Monad_Syntax" "HOL-Library.Multiset"
begin

section \<open>Python values shared by the modules\<close>

text \<open>
  Python floats are modelled by the real numbers they denote (no NaN, no infinities); where
  the source computes a float from integers, the rounding to a double is explicit
  (\<open>double\<close> below). Python ints are \<open>int\<close> or, where the source only produces counts,
  \<open>nat\<close>. Dictionaries with a fixed set of keys are records; a key that the source reads
  with \<open>.get\<close> has an \<open>option\<close> type, \<open>None\<close> standing for the absent key.
\<close>

datatype py_error =
    ValueError string
  | IndexError
  | KeyError string
  | TypeError
  | AttributeError
  | FileNotFoundError string
  | JSONDecodeError
  | ExternalError string

text \<open>\<open>xs.index(x)\<close>: the first position of \<open>x\<close>; Python raises ValueError when there is none.\<close>

fun py_index :: "'a list \<Rightarrow> 'a \<Rightarrow> nat option" where
  "py_index [] x = None"
| "py_index (y # ys) x =
     (if y = x then Some 0 else (case py_index ys x of None \<Rightarrow> None | Some i \<Rightarrow> Some (Suc i)))"

text \<open>\<open>xs.insert(i, x)\<close> for a non-negative \<open>i\<close>: beyond the end it appends.\<close>

definition py_insert :: "'a list \<Rightarrow> nat \<Rightarrow> 'a \<Rightarrow> 'a list" where
  "py_insert xs i x = take i xs @ x # drop i xs"

text \<open>
  \<open>d.get(key) or default\<close> for a float-valued key: the outer \<open>None\<close> is the absent key, \<open>Some None\<close>
  is the value \<open>None\<close>, and the number zero is falsy as well.
\<close>

definition get_or :: "real option option \<Rightarrow> real \<Rightarrow> real" where
  "get_or v d = (case v of None \<Rightarrow> d | Some None \<Rightarrow> d | Some (Some r) \<Rightarrow> (if r = 0 then d else r))"

section \<open>The dataset profile\<close>

text \<open>
  The dictionary built by \<open>profile_dataset\<close>. The type parameter is the type of the value
  stored under \<open>notes\<close>: a list of strings where the profile is seen as a value, the address
  of a list object where sharing matters.
\<close>

record 'n profile =
  shape :: "nat \<times> nat"
  columns :: "string list"
  missing_pct :: "(string \<times> real) list"
  target :: string
  target_dtype :: string
  is_classification :: bool
  feature_types :: "string list \<times> string list"
  n_unique_by_col :: "(string \<times> nat) list"
  "notes" :: "'n option"
  class_counts :: "(string \<times> nat) list option"
  imbalance_ratio :: "real option option"

section \<open>agents/planner.py\<close>

definition base_plan :: "string list" where
  "base_plan =
     [''profile_dataset'', ''build_preprocessor'', ''select_models'', ''train_models'',
      ''evaluate'', ''reflect'', ''write_report'']"

definition create_plan :: "'n profile \<Rightarrow> 'h option \<Rightarrow> py_error + string list" where
  "create_plan dataset_profile memory_hint =
     (let plan = base_plan;
          imb = get_or (imbalance_ratio dataset_profile) 1.0
      in if imb \<ge> 3.0
         then (case py_index plan ''train_models'' of
                 None \<Rightarrow> Inl (ValueError ''train_models is not in list'')
               | Some i \<Rightarrow> Inr (py_insert plan i ''consider_imbalance_strategy''))
         else Inr plan)"

section \<open>Rendering numbers as text\<close>

text \<open>\<open>str(n)\<close> for a non-negative int: its decimal digits.\<close>

definition digit_char :: "nat \<Rightarrow> char" where
  "digit_char d = ''0123456789'' ! d"

fun str_nat :: "nat \<Rightarrow> string" where
  "str_nat n = (if n < 10 then [digit_char n] else str_nat (n div 10) @ [digit_char (n mod 10)])"

declare str_nat.simps [simp del]

text \<open>Rounding to the nearest integer, ties to the even one, as \<open>round\<close> and \<open>format\<close> do.\<close>

definition round_half_even :: "real \<Rightarrow> int" where
  "round_half_even x =
     (let f = \<lfloor>x\<rfloor>; d = x - of_int f
      in if d < 1 / 2 then f else if d > 1 / 2 then f + 1 else if even f then f else f + 1)"

text \<open>
  The double nearest to a real number, ties to the even mantissa: for \<open>2^e \<le> |x| < 2^(e+1)\<close>
  the result is a multiple of \<open>2^(e-52)\<close>. Overflow and subnormal numbers are not modelled;
  the values rounded here are 0 or lie between 1 and \<open>2^63\<close>.
\<close>

fun ilog2 :: "nat \<Rightarrow> nat" where
  "ilog2 n = (if n < 2 then 0 else Suc (ilog2 (n div 2)))"

declare ilog2.simps [simp del]

definition float_exponent :: "real \<Rightarrow> int" where
  "float_exponent x =
     (if x \<ge> 1 then int (ilog2 (nat \<lfloor>x\<rfloor>))
      else - int (Suc (ilog2 (nat (\<lceil>1 / x\<rceil> - 1)))))"

definition double :: "real \<Rightarrow> real" where
  "double x =
     (if x = 0 then 0
      else
        (let a = \<bar>x\<bar>;
             e = float_exponent a;
             v = (if e \<le> 52
                  then of_int (round_half_even (a * 2 ^ nat (52 - e))) / 2 ^ nat (52 - e)
                  else of_int (round_half_even (a / 2 ^ nat (e - 52))) * 2 ^ nat (e - 52))
         in if x < 0 then - v else v))"

text \<open>\<open>a / b\<close> for two integer counts (numpy int64): both become doubles, and so does the quotient.\<close>

definition float_div :: "nat \<Rightarrow> nat \<Rightarrow> real" where
  "float_div a b = double (double (real a) / double (real b))"

text \<open>
  \<open>round(x, 3)\<close> for a float \<open>x\<close>: the exact value of \<open>x\<close> is rounded to three decimals,
  ties to even, and the result is the double nearest to that decimal.
\<close>

definition py_round3 :: "real \<Rightarrow> real" where
  "py_round3 x = double (of_int (round_half_even (x * 1000)) / 1000)"

text \<open>\<open>f"{x:.3f}"\<close>: sign, integer part, a dot and three decimals.\<close>

definition pad3 :: "nat \<Rightarrow> string" where
  "pad3 n = (let s = str_nat n in replicate (3 - length s) CHR ''0'' @ s)"

definition format_3f :: "real \<Rightarrow> string" where
  "format_3f x =
     (let q = nat (round_half_even (\<bar>x\<bar> * 1000))
      in (if x < 0 then ''-'' else []) @ str_nat (q div 1000) @ ''.'' @ pad3 (q mod 1000))"

section \<open>agents/reflector.py\<close>

text \<open>The metric dictionary of one candidate, as \<open>train_models\<close> builds it.\<close>

record metrics =
  model :: "string option"
  accuracy :: "real option"
  balanced_accuracy :: "real option"
  f1_macro :: "real option"
  precision_macro :: "real option"
  recall_macro :: "real option"

text \<open>\<open>float(d.get(key, 0.0))\<close>.\<close>

definition get_float :: "real option \<Rightarrow> real" where
  "get_float v = (case v of None \<Rightarrow> 0.0 | Some r \<Rightarrow> r)"

record reflection =
  status :: string
  best_model :: "string option"
  issues :: "string list"
  suggestions :: "string list"
  replan_recommended :: "bool option"

text \<open>\<open>"Dummy" in m.get("model", "")\<close>.\<close>

definition is_dummy :: "metrics \<Rightarrow> bool" where
  "is_dummy m = sublist ''Dummy'' (case model m of None \<Rightarrow> [] | Some s \<Rightarrow> s)"

definition reflect :: "'n profile \<Rightarrow> metrics \<Rightarrow> metrics list \<Rightarrow> reflection" where
  "reflect dataset_profile evaluation all_metrics =
     (let bal_acc = get_float (balanced_accuracy evaluation);
          f1 = get_float (f1_macro evaluation);
          imb = get_or (imbalance_ratio dataset_profile) 1.0;
          dummy = find is_dummy all_metrics;
          (issues1, suggestions1) =
            (case dummy of
               None \<Rightarrow> ([], [])
             | Some d \<Rightarrow>
                 (let dummy_ba = get_float (balanced_accuracy d);
                      improvement = bal_acc - dummy_ba
                  in if improvement < 0.05
                     then ([''Best model only '' @ format_3f improvement @
                              '' better than baseline. Weak signal or pipeline issues.''],
                           [''Check for target leakage, verify target quality, or improve feature engineering.''])
                     else ([], [])));
          (issues2, suggestions2) =
            (if f1 < 0.60
             then (issues1 @ [''Macro F1 score is modest (<0.60).''],
                   suggestions1 @ [''Try different models, tune hyperparameters, or improve preprocessing.''])
             else (issues1, suggestions1));
          suggestions3 =
            (if imb \<ge> 3.0
             then suggestions2 @ [''Imbalance detected: consider class_weight, threshold tuning, or SMOTE.'']
             else suggestions2);
          status = (if issues2 \<noteq> [] then ''needs_attention'' else ''ok'');
          replan = (issues2 \<noteq> [] \<and> f1 < 0.60)
      in \<lparr>status = status, best_model = model evaluation, issues = issues2,
          suggestions = suggestions3, replan_recommended = Some replan\<rparr>)"

text \<open>\<open>bool(reflection.get("replan_recommended", False))\<close>.\<close>

definition should_replan :: "reflection \<Rightarrow> bool" where
  "should_replan r = (case replan_recommended r of None \<Rightarrow> False | Some b \<Rightarrow> b)"

text \<open>
  \<open>apply_replan_strategy\<close> on values: what the returned plan and profile contain, given what
  the argument plan and profile contain.
\<close>

definition apply_replan_strategy ::
  "string list \<Rightarrow> string list profile \<Rightarrow> reflection \<Rightarrow> string list \<times> string list profile" where
  "apply_replan_strategy plan dataset_profile reflection =
     (let new_plan = plan;
          new_profile = dataset_profile;
          notes0 = (case notes new_profile of None \<Rightarrow> [] | Some ns \<Rightarrow> ns);
          notes1 = notes0 @ [''Replan: adjusting strategy after reflection.''];
          new_profile = new_profile\<lparr>notes := Some notes1\<rparr>;
          new_plan = new_plan @ [''replan_attempt'']
      in (new_plan, new_profile))"

subsection \<open>The same function on a store of objects\<close>

text \<open>
  Python lists and dictionaries are objects; \<open>append\<close> and item assignment change the object
  in place, and every variable holding its address sees the change. To say that the
  arguments of \<open>apply_replan_strategy\<close> are left alone, the store is explicit: a list of
  objects, the address of an object being its position, and a new object taking the next
  free position. A profile object holds the address of its list of notes.
\<close>

type_synonym addr = nat

datatype obj = ListObj "string list" | DictObj "addr profile"

type_synonym heap = "obj list"

definition alloc :: "heap \<Rightarrow> obj \<Rightarrow> heap \<times> addr" where
  "alloc h ob = (h @ [ob], length h)"

definition get_list :: "heap \<Rightarrow> addr \<Rightarrow> string list option" where
  "get_list h a =
     (if a < length h then (case h ! a of ListObj xs \<Rightarrow> Some xs | DictObj d \<Rightarrow> None) else None)"

definition get_dict :: "heap \<Rightarrow> addr \<Rightarrow> addr profile option" where
  "get_dict h a =
     (if a < length h then (case h ! a of ListObj xs \<Rightarrow> None | DictObj d \<Rightarrow> Some d) else None)"

text \<open>\<open>xs.append(x)\<close> on the list object at an address.\<close>

definition list_append :: "heap \<Rightarrow> addr \<Rightarrow> string \<Rightarrow> heap option" where
  "list_append h a x =
     (case get_list h a of None \<Rightarrow> None | Some xs \<Rightarrow> Some (h[a := ListObj (xs @ [x])]))"

text \<open>\<open>d["notes"] = v\<close> on the dictionary object at an address.\<close>

definition dict_set_notes :: "heap \<Rightarrow> addr \<Rightarrow> addr \<Rightarrow> heap option" where
  "dict_set_notes h a v =
     (case get_dict h a of None \<Rightarrow> None | Some d \<Rightarrow> Some (h[a := DictObj (d\<lparr>notes := Some v\<rparr>)]))"

text \<open>
  The function takes the addresses of the plan and of the profile and returns the new store
  with the addresses of the new plan and the new profile. The result \<open>None\<close> is Python's
  TypeError for an argument that is not an object of the annotated type.
\<close>

definition apply_replan_strategy_heap ::
  "heap \<Rightarrow> addr \<Rightarrow> addr \<Rightarrow> reflection \<Rightarrow> (heap \<times> addr \<times> addr) option" where
  "apply_replan_strategy_heap h plan dataset_profile reflection =
     do {
       p \<leftarrow> get_list h plan;
       let (h1, new_plan) = alloc h (ListObj p);
       d \<leftarrow> get_dict h1 dataset_profile;
       let (h2, new_profile) = alloc h1 (DictObj d);
       d' \<leftarrow> get_dict h2 new_profile;
       let (h3, dflt) = alloc h2 (ListObj []);
       let src = (case notes d' of None \<Rightarrow> dflt | Some a \<Rightarrow> a);
       ns \<leftarrow> get_list h3 src;
       let (h4, notes_ref) = alloc h3 (ListObj ns);
       h5 \<leftarrow> list_append h4 notes_ref ''Replan: adjusting strategy after reflection.'';
       h6 \<leftarrow> dict_set_notes h5 new_profile notes_ref;
       h7 \<leftarrow> list_append h6 new_plan ''replan_attempt'';
       Some (h7, new_plan, new_profile)
     }"

text \<open>The value of a profile object: its dictionary with the notes read from the store.\<close>

definition read_profile :: "heap \<Rightarrow> addr \<Rightarrow> string list profile option" where
  "read_profile h a =
     do {
       d \<leftarrow> get_dict h a;
       ns \<leftarrow> (case notes d of None \<Rightarrow> Some None | Some n \<Rightarrow> map_option Some (get_list h n));
       Some \<lparr>shape = shape d, columns = columns d, missing_pct = missing_pct d,
             target = target d, target_dtype = target_dtype d,
             is_classification = is_classification d, feature_types = feature_types d,
             n_unique_by_col = n_unique_by_col d, notes = ns,
             class_counts = class_counts d, imbalance_ratio = imbalance_ratio d\<rparr>
     }"

section \<open>Example inputs\<close>

definition demo_profile_with :: "'n option \<Rightarrow> 'n profile" where
  "demo_profile_with ns =
     \<lparr>shape = (200, 2), columns = [''feature'', ''target''],
      missing_pct = [(''feature'', 0), (''target'', 0)],
      target = ''target'', target_dtype = ''int64'', is_classification = True,
      feature_types = ([''feature''], []),
      n_unique_by_col = [(''feature'', 200), (''target'', 2)],
      notes = ns,
      class_counts = Some [(''0'', 180), (''1'', 20)],
      imbalance_ratio = Some (Some 4.5)\<rparr>"

definition demo_profile :: "string list profile" where
  "demo_profile =
     demo_profile_with
       (Some [''Small dataset (<1000 rows): prefer simpler models / guard against overfitting.''])"

definition demo_heap :: heap where
  "demo_heap =
     [ListObj base_plan,
      ListObj [''Small dataset (<1000 rows): prefer simpler models / guard against overfitting.''],
      DictObj (demo_profile_with (Some 1))]"

definition demo_reflection :: reflection where
  "demo_reflection =
     \<lparr>status = ''needs_attention'', best_model = Some ''DummyMostFrequent'',
      issues = [''Macro F1 score is modest (<0.60).''],
      suggestions = [''Try different models, tune hyperparameters, or improve preprocessing.''],
      replan_recommended = Some True\<rparr>"

section \<open>agents/memory.py\<close>

text \<open>
  The memory file is a JSON document of the shape
  \<open>{"datasets": {fingerprint: record}, "notes": [{"ts": ..., "msg": ...}]}\<close>. Both keys are
  read with a default, so either may be absent. The type parameter is the type of the
  records, which are values that \<open>json.dump\<close> can write.
\<close>

record memory_note =
  ts :: string
  msg :: string

record 'r memory_data =
  datasets :: "(string \<rightharpoonup> 'r) option"
  memory_notes :: "memory_note list option"

text \<open>
  \<open>json.load\<close> accepts every JSON text, of whatever shape, and \<open>_load\<close> keeps what it
  returns. A JSON value in general:
\<close>

datatype json =
    JNull
  | JBool bool
  | JNum real
  | JStr string
  | JArr "json list"
  | JObj "(string \<times> json) list"

text \<open>
  The content of a file is the JSON text of a memory document of the shape above
  (\<open>JsonDoc\<close>), the JSON text of any other value (\<open>JsonOther\<close>: \<open>[]\<close>, \<open>null\<close>,
  \<open>{"datasets": null}\<close>, ...), or text on which \<open>json.load\<close> raises. The file system maps the
  paths of the existing files to their content; reading and writing an existing or new
  file does not fail.
\<close>

datatype 'r file_content = JsonDoc "'r memory_data" | JsonOther json | Unparsable string

type_synonym 'r file_system = "string \<rightharpoonup> 'r file_content"




record 'r JSONMemory =
  path :: string
  data :: "'r memory_data"




definition save :: "'r file_system \<Rightarrow> 'r JSONMemory \<Rightarrow> 'r file_system" where
  "save fs self = fs(path self \<mapsto> JsonDoc (data self))"


definition upsert_dataset_record ::
  "'r file_system \<Rightarrow> 'r JSONMemory \<Rightarrow> string \<Rightarrow> 'r \<Rightarrow> 'r file_system \<times> 'r JSONMemory" where
  "upsert_dataset_record fs self fingerprint record =
     (let ds = (case datasets (data self) of None \<Rightarrow> Map.empty | Some ds \<Rightarrow> ds);
          self' = self\<lparr>data := (data self)\<lparr>datasets := Some (ds(fingerprint \<mapsto> record))\<rparr>\<rparr>
      in (save fs self', self'))"

definition add_note ::
  "string \<Rightarrow> 'r file_system \<Rightarrow> 'r JSONMemory \<Rightarrow> string \<Rightarrow> 'r file_system \<times> 'r JSONMemory" where
  "add_note now fs self m =
     (let ns = (case memory_notes (data self) of None \<Rightarrow> [] | Some ns \<Rightarrow> ns);
          self' = self\<lparr>data := (data self)\<lparr>memory_notes := Some (ns @ [\<lparr>ts = now, msg = m\<rparr>])\<rparr>\<rparr>
      in (save fs self', self'))"

subsection \<open>The methods on a store whose data is not a memory document\<close>

text \<open>
  \<open>v.get(key, default)\<close> on a JSON value: only a dict has the method, on any other value
  the attribute lookup raises AttributeError.
\<close>

definition json_get :: "json \<Rightarrow> string \<Rightarrow> json \<Rightarrow> py_error + json" where
  "json_get v k dflt =
     (case v of
        JObj kvs \<Rightarrow> Inr (case map_of kvs k of None \<Rightarrow> dflt | Some x \<Rightarrow> x)
      | JNull \<Rightarrow> Inl AttributeError
      | JBool b \<Rightarrow> Inl AttributeError
      | JNum n \<Rightarrow> Inl AttributeError
      | JStr s \<Rightarrow> Inl AttributeError
      | JArr xs \<Rightarrow> Inl AttributeError)"

text \<open>\<open>d[key] = value\<close> on the entries of a dict: the entry is replaced in place or added last.\<close>

fun dict_set :: "(string \<times> json) list \<Rightarrow> string \<Rightarrow> json \<Rightarrow> (string \<times> json) list" where
  "dict_set [] k v = [(k, v)]"
| "dict_set ((k', v') # kvs) k v =
     (if k' = k then (k, v) # kvs else (k', v') # dict_set kvs k v)"

text \<open>
  \<open>get_dataset_record\<close>: \<open>self.data.get("datasets", {}).get(fingerprint)\<close>. The result
  \<open>JNull\<close> is Python's \<open>None\<close>.
\<close>

definition get_dataset_record_untyped :: "json \<Rightarrow> string \<Rightarrow> py_error + json" where
  "get_dataset_record_untyped d fingerprint =
     (case json_get d ''datasets'' (JObj []) of
        Inl e \<Rightarrow> Inl e
      | Inr ds \<Rightarrow> json_get ds fingerprint JNull)"

text \<open>
  \<open>upsert_dataset_record\<close>: \<open>self.data.setdefault("datasets", {})[fingerprint] = record\<close>,
  then \<open>save\<close>. \<open>setdefault\<close> is a method of dicts only; the item assignment raises
  TypeError on \<open>None\<close>, a number, a string, and on a list, whose indices must be integers.
  An exception leaves the file as it was.
\<close>

definition upsert_dataset_record_untyped ::
  "'r file_system \<Rightarrow> string \<Rightarrow> json \<Rightarrow> string \<Rightarrow> json \<Rightarrow> py_error + ('r file_system \<times> json)" where
  "upsert_dataset_record_untyped fs p d fingerprint record =
     (case d of
        JObj kvs \<Rightarrow>
          (case (case map_of kvs ''datasets'' of None \<Rightarrow> JObj [] | Some v \<Rightarrow> v) of
             JObj ds \<Rightarrow>
               (let d' = JObj (dict_set kvs ''datasets'' (JObj (dict_set ds fingerprint record)))
                in Inr (fs(p \<mapsto> JsonOther d'), d'))
           | JNull \<Rightarrow> Inl TypeError
           | JBool b \<Rightarrow> Inl TypeError
           | JNum n \<Rightarrow> Inl TypeError
           | JStr s \<Rightarrow> Inl TypeError
           | JArr xs \<Rightarrow> Inl TypeError)
      | JNull \<Rightarrow> Inl AttributeError
      | JBool b \<Rightarrow> Inl AttributeError
      | JNum n \<Rightarrow> Inl AttributeError
      | JStr s \<Rightarrow> Inl AttributeError
      | JArr xs \<Rightarrow> Inl AttributeError)"



section \<open>tools/data_profiler.py\<close>

text \<open>
  A pandas Series is represented by the answers to the queries the source makes on it:
  its dtype as text, \<open>nunique(dropna=True)\<close>, the table \<open>value_counts(dropna=False)\<close> (the
  key \<open>None\<close> is the missing value), the rounded percentage of missing cells, and whether
  \<open>select_dtypes(include=["number", "bool"])\<close> selects it. A DataFrame has its column
  names in order, its number of rows and its columns.
\<close>

record series =
  dtype :: string
  nunique :: nat
  value_counts :: "(string option \<times> nat) list"
  isna_pct :: real
  is_number_or_bool :: bool

record dataframe =
  df_columns :: "string list"
  df_rows :: nat
  df_col :: "string \<Rightarrow> series"

definition is_classification_target :: "series \<Rightarrow> bool" where
  "is_classification_target s =
     (if dtype s = ''object'' \<or> prefix ''category'' (dtype s) then True
      else nunique s \<le> 50)"




text \<open>\<open>vc.max()\<close> and \<open>vc.min()\<close> of a table of counts.\<close>

definition counts_max :: "nat list \<Rightarrow> nat" where
  "counts_max cs = foldr max cs 0"

definition counts_min :: "nat list \<Rightarrow> nat" where
  "counts_min cs = (case cs of [] \<Rightarrow> 0 | c # cs' \<Rightarrow> foldr min cs' c)"

text \<open>\<open>str(k)\<close> of a key of the table: the missing value prints as \<open>nan\<close>.\<close>

definition str_key :: "string option \<Rightarrow> string" where
  "str_key k = (case k of None \<Rightarrow> ''nan'' | Some s \<Rightarrow> s)"

definition profile_dataset :: "dataframe \<Rightarrow> string \<Rightarrow> py_error + string list profile" where
  "profile_dataset df tgt =
     (if tgt \<notin> set (df_columns df)
      then Inl (ValueError (''Target column '' @ [CHR 0x27] @ tgt @ [CHR 0x27] @
                            '' not found in dataset columns.''))
      else
        (let y = df_col df tgt;
             rows = df_rows df;
             cols = length (df_columns df);
             x_columns = filter (\<lambda>c. c \<noteq> tgt) (df_columns df);
             numeric_cols = filter (\<lambda>c. is_number_or_bool (df_col df c)) x_columns;
             cat_cols = filter (\<lambda>c. c \<notin> set numeric_cols) x_columns;
             notes0 =
               (if rows < 1000
                then [''Small dataset (<1000 rows): prefer simpler models / guard against overfitting.'']
                else []) @
               (if cols > 100
                then [''High dimensionality (>100 columns): watch one-hot expansion and overfitting.'']
                else []);
             is_cls = is_classification_target y;
             vc = value_counts y;
             ratio = (if length vc \<ge> 2
                      then float_div (counts_max (map snd vc)) (max (counts_min (map snd vc)) 1)
                      else 1.0)
         in Inr \<lparr>shape = (rows, cols),
                 columns = df_columns df,
                 missing_pct = map (\<lambda>c. (c, isna_pct (df_col df c))) (df_columns df),
                 target = tgt,
                 target_dtype = dtype y,
                 is_classification = is_cls,
                 feature_types = (numeric_cols, cat_cols),
                 n_unique_by_col = map (\<lambda>c. (c, nunique (df_col df c))) (df_columns df),
                 notes = Some
                   (if is_cls
                    then notes0 @
                      (if ratio \<ge> 3.0
                       then [''Imbalance detected (ratio >= 3.0): prioritise macro metrics / balanced accuracy.'']
                       else [])
                    else notes0 @
                      [''Non-classification target detected: this template focuses on classification.'']),
                 class_counts =
                   (if is_cls then Some (map (\<lambda>(k, v). (str_key k, v)) vc) else None),
                 imbalance_ratio =
                   (if is_cls then Some (Some (py_round3 ratio)) else Some None)\<rparr>))"

definition demo_series :: "string \<Rightarrow> nat \<Rightarrow> (string option \<times> nat) list \<Rightarrow> series" where
  "demo_series dt n vc =
     \<lparr>dtype = dt, nunique = n, value_counts = vc, isna_pct = 0, is_number_or_bool = True\<rparr>"

definition demo_df :: "string list \<Rightarrow> dataframe" where
  "demo_df cols =
     \<lparr>df_columns = cols, df_rows = 200,
      df_col = (\<lambda>c. if c = ''target''
                    then demo_series ''int64'' 2 [(Some ''0'', 180), (Some ''1'', 20)]
                    else demo_series ''float64'' 200 (map (\<lambda>i. (Some (str_nat i), 1)) [0..<200]))\<rparr>"

definition demo_regression_df :: dataframe where
  "demo_regression_df =
     \<lparr>df_columns = [''feature'', ''price''], df_rows = 120,
      df_col = (\<lambda>c. demo_series ''float64'' 120 (map (\<lambda>i. (Some (str_nat i), 1)) [0..<120]))\<rparr>"

definition demo_uneven_df :: dataframe where
  "demo_uneven_df =
     \<lparr>df_columns = [''feature'', ''label''], df_rows = 13,
      df_col = (\<lambda>c. demo_series ''object'' 2 [(Some ''no'', 10), (Some ''yes'', 3)])\<rparr>"

definition demo_close_df :: dataframe where
  "demo_close_df =
     \<lparr>df_columns = [''feature'', ''label''], df_rows = 167,
      df_col = (\<lambda>c. demo_series ''object'' 2 [(Some ''no'', 87), (Some ''yes'', 80)])\<rparr>"


section \<open>tools/modelling.py\<close>

text \<open>
  scikit-learn is outside the repository. Its estimators are values of a datatype, and
  the two places where \<open>train_models\<close> calls into it are parameters: \<open>split\<close> is
  \<open>train_test_split\<close> on the rows with a target, and \<open>fit\<close> builds the pipeline of one
  candidate, fits it, predicts the test rows and computes the five scores. Either may raise.
\<close>

datatype estimator =
    DummyClassifier string
  | LogisticRegression nat "string option"
  | RandomForestClassifier nat int "string option"
  | GradientBoostingClassifier int
  | SVC string bool "string option"

record preprocessor =
  num_cols :: "string list"
  cat_cols :: "string list"

definition build_preprocessor :: "'n profile \<Rightarrow> preprocessor" where
  "build_preprocessor p = \<lparr>num_cols = fst (feature_types p), cat_cols = snd (feature_types p)\<rparr>"

definition select_models :: "'n profile \<Rightarrow> int \<Rightarrow> (string \<times> estimator) list" where
  "select_models p seed =
     (let rows = fst (shape p);
          cols = snd (shape p);
          imb = get_or (imbalance_ratio p) 1.0;
          class_weight = (if imb \<ge> 3.0 then Some ''balanced'' else None);
          candidates =
            [(''DummyMostFrequent'', DummyClassifier ''most_frequent''),
             (''LogisticRegression'', LogisticRegression 2000 class_weight),
             (''RandomForest'', RandomForestClassifier 300 seed class_weight)];
          candidates = (if rows \<le> 50000
                        then candidates @ [(''GradientBoosting'', GradientBoostingClassifier seed)]
                        else candidates);
          candidates = (if rows \<le> 20000 \<and> cols \<le> 200
                        then candidates @ [(''SVC_RBF'', SVC ''rbf'' True class_weight)]
                        else candidates)
      in candidates)"

record scores =
  s_accuracy :: real
  s_balanced_accuracy :: real
  s_f1_macro :: real
  s_precision_macro :: real
  s_recall_macro :: real

text \<open>One entry of \<open>results\<close>: the name, the fitted pipeline with its predictions, the metrics.\<close>

record 'f train_result =
  name :: string
  pipeline :: 'f
  r_metrics :: metrics

record 'f training_payload =
  results :: "'f train_result list"
  best :: "'f train_result"
  all_metrics :: "metrics list"

text \<open>The body of the loop over the candidates, for one candidate.\<close>

definition train_one ::
  "(string \<times> 'm \<Rightarrow> py_error + 'f \<times> scores) \<Rightarrow> string \<times> 'm \<Rightarrow> py_error + 'f train_result" where
  "train_one fit c =
     (case fit c of
        Inl e \<Rightarrow> Inl e
      | Inr (pipe, s) \<Rightarrow>
          Inr \<lparr>name = fst c, pipeline = pipe,
               r_metrics = \<lparr>model = Some (fst c),
                            accuracy = Some (s_accuracy s),
                            balanced_accuracy = Some (s_balanced_accuracy s),
                            f1_macro = Some (s_f1_macro s),
                            precision_macro = Some (s_precision_macro s),
                            recall_macro = Some (s_recall_macro s)\<rparr>\<rparr>)"

text \<open>The loop: the results in the order of the candidates; the first exception ends it.\<close>

fun train_all ::
  "(string \<times> 'm \<Rightarrow> py_error + 'f \<times> scores) \<Rightarrow> (string \<times> 'm) list \<Rightarrow> py_error + 'f train_result list" where
  "train_all fit [] = Inr []"
| "train_all fit (c # cs) =
     (case train_one fit c of
        Inl e \<Rightarrow> Inl e
      | Inr r \<Rightarrow> (case train_all fit cs of Inl e \<Rightarrow> Inl e | Inr rs \<Rightarrow> Inr (r # rs)))"

text \<open>
  The sort key \<open>(r["metrics"]["balanced_accuracy"], r["metrics"]["f1_macro"])\<close>; tuples
  compare lexicographically.
\<close>

definition ranking_key :: "'f train_result \<Rightarrow> real \<times> real" where
  "ranking_key r = (get_float (balanced_accuracy (r_metrics r)), get_float (f1_macro (r_metrics r)))"

definition tuple_gt :: "real \<times> real \<Rightarrow> real \<times> real \<Rightarrow> bool" where
  "tuple_gt a b = (fst a > fst b \<or> (fst a = fst b \<and> snd a > snd b))"

text \<open>
  \<open>xs.sort(key=k, reverse=True)\<close>: descending, and stable (elements with equal keys keep
  their order). An element is put before the first one whose key is not greater than its own.
\<close>

fun insert_desc :: "('a \<Rightarrow> real \<times> real) \<Rightarrow> 'a \<Rightarrow> 'a list \<Rightarrow> 'a list" where
  "insert_desc k x [] = [x]"
| "insert_desc k x (y # ys) =
     (if tuple_gt (k y) (k x) then y # insert_desc k x ys else x # y # ys)"

definition sort_desc :: "('a \<Rightarrow> real \<times> real) \<Rightarrow> 'a list \<Rightarrow> 'a list" where
  "sort_desc k xs = foldr (insert_desc k) xs []"

text \<open>\<open>y.value_counts()\<close> after the rows with a missing target are dropped.\<close>

definition notna_counts :: "series \<Rightarrow> nat list" where
  "notna_counts y = map snd (filter (\<lambda>kv. fst kv \<noteq> None) (value_counts y))"

definition train_models ::
  "(dataframe \<Rightarrow> string \<Rightarrow> real \<Rightarrow> int \<Rightarrow> bool \<Rightarrow> py_error + 'parts) \<Rightarrow>
   ('parts \<Rightarrow> preprocessor \<Rightarrow> string \<times> 'm \<Rightarrow> py_error + 'f \<times> scores) \<Rightarrow>
   dataframe \<Rightarrow> string \<Rightarrow> preprocessor \<Rightarrow> (string \<times> 'm) list \<Rightarrow> int \<Rightarrow> real \<Rightarrow> string \<Rightarrow> bool \<Rightarrow>
   py_error + 'f training_payload" where
  "train_models split fit df tgt pre candidates seed test_size output_dir verbose =
     (if tgt \<notin> set (df_columns df)
      then Inl (ValueError (''Target '' @ [CHR 0x27] @ tgt @ [CHR 0x27] @ '' not found.''))
      else
        (let y = df_col df tgt;
             stratify = (nunique y > 1 \<and> counts_min (notna_counts y) \<ge> 2)
         in case split df tgt test_size seed stratify of
              Inl e \<Rightarrow> Inl e
            | Inr parts \<Rightarrow>
                (case train_all (fit parts pre) candidates of
                   Inl e \<Rightarrow> Inl e
                 | Inr rs \<Rightarrow>
                     (let sorted_rs = sort_desc ranking_key rs
                      in case sorted_rs of
                           [] \<Rightarrow> Inl IndexError
                         | b # _ \<Rightarrow>
                             Inr \<lparr>results = sorted_rs, best = b,
                                  all_metrics = map r_metrics sorted_rs\<rparr>))))"

definition demo_split :: "dataframe \<Rightarrow> string \<Rightarrow> real \<Rightarrow> int \<Rightarrow> bool \<Rightarrow> py_error + unit" where
  "demo_split df tgt test_size seed stratify = Inr ()"

definition demo_scores :: "real \<Rightarrow> real \<Rightarrow> scores" where
  "demo_scores ba f1 =
     \<lparr>s_accuracy = ba, s_balanced_accuracy = ba, s_f1_macro = f1,
      s_precision_macro = f1, s_recall_macro = ba\<rparr>"

definition demo_fit :: "unit \<Rightarrow> preprocessor \<Rightarrow> string \<times> estimator \<Rightarrow> py_error + unit \<times> scores" where
  "demo_fit parts pre c =
     (if fst c = ''DummyMostFrequent'' then Inr ((), demo_scores 0.5 0.47)
      else if fst c = ''RandomForest'' then Inr ((), demo_scores 0.9 0.85)
      else if fst c = ''GradientBoosting'' then Inr ((), demo_scores 0.8 0.75)
      else Inr ((), demo_scores 0.8 0.7))"

definition demo_result :: "string \<Rightarrow> real \<Rightarrow> real \<Rightarrow> unit train_result" where
  "demo_result n ba f1 =
     \<lparr>name = n, pipeline = (),
      r_metrics = \<lparr>model = Some n, accuracy = Some ba, balanced_accuracy = Some ba,
                   f1_macro = Some f1, precision_macro = Some f1, recall_macro = Some ba\<rparr>\<rparr>"

section \<open>tools/evaluation.py\<close>

text \<open>\<open>os.path.join\<close> of a directory and a file name.\<close>

definition path_join :: "string \<Rightarrow> string \<Rightarrow> string" where
  "path_join a b = (if a = [] then b else if last a = CHR ''/'' then a @ b else a @ ''/'' @ b)"

record eval_payload =
  best_metrics :: metrics
  eval_all_metrics :: "metrics list"
  confusion_matrix_path :: string
  classification_report :: string

text \<open>
  The confusion matrix, its plot and the classification report come from scikit-learn and
  matplotlib: \<open>diagnose\<close> stands for them, writes the plot to the path it is given and
  returns the text of the report, or raises.
\<close>

definition evaluate_best ::
  "('f train_result \<Rightarrow> string \<Rightarrow> py_error + string) \<Rightarrow> 'f training_payload \<Rightarrow> string \<Rightarrow>
   py_error + eval_payload" where
  "evaluate_best diagnose training_payload output_dir =
     (let b = best training_payload;
          am = all_metrics training_payload;
          cm_path = path_join output_dir ''confusion_matrix.png''
      in case diagnose b cm_path of
           Inl e \<Rightarrow> Inl e
         | Inr cls_report \<Rightarrow>
             Inr \<lparr>best_metrics = r_metrics b, eval_all_metrics = am,
                  confusion_matrix_path = cm_path, classification_report = cls_report\<rparr>)"

section \<open>agentic_data_scientist.py\<close>

record RunContext =
  run_id :: string
  started_at :: string
  data_path :: string
  ctx_target :: string
  output_dir :: string
  seed :: int
  test_size :: real
  max_replans :: int

text \<open>The record that \<open>run\<close> writes to the memory store after each cycle.\<close>

record memory_record =
  last_seen :: string
  record_target :: string
  record_shape :: "nat \<times> nat"
  record_best_model :: string
  record_best_metrics :: metrics

text \<open>
  What lies outside the repository, for the cycle with a given number (counted from 0):
  scikit-learn's split and fit, the diagnostics of the evaluation, the writing of the four
  JSON artefacts and of the report (\<open>None\<close> when all are written, the exception otherwise),
  and the clock.
\<close>

record ('parts, 'f) world =
  w_split :: "nat \<Rightarrow> dataframe \<Rightarrow> string \<Rightarrow> real \<Rightarrow> int \<Rightarrow> bool \<Rightarrow> py_error + 'parts"
  w_fit :: "nat \<Rightarrow> 'parts \<Rightarrow> preprocessor \<Rightarrow> string \<times> estimator \<Rightarrow> py_error + 'f \<times> scores"
  w_diagnose :: "nat \<Rightarrow> 'f train_result \<Rightarrow> string \<Rightarrow> py_error + string"
  w_persist :: "nat \<Rightarrow> py_error option"
  w_now :: "nat \<Rightarrow> string"

text \<open>
  The state of the loop of \<open>run\<close>: the memory store and its file system, the plan, the
  profile and \<open>self.state["replan_count"]\<close>. \<open>cycles\<close> is not in the source: it counts the
  passes through the body of the loop, each of which trains, evaluates and reflects once.
\<close>

record loop_state =
  ls_fs :: "memory_record file_system"
  ls_memory :: "memory_record JSONMemory"
  ls_plan :: "string list"
  ls_profile :: "string list profile"
  replan_count :: int
  cycles :: nat

text \<open>
  The \<open>while True\<close> loop of \<open>run\<close>. It returns the exception that ended the run, if any, and
  the last state. An exception of a stage leaves the loop at once.
\<close>

function run_loop ::
  "('parts, 'f) world \<Rightarrow> RunContext \<Rightarrow> bool \<Rightarrow> dataframe \<Rightarrow> string \<Rightarrow> loop_state \<Rightarrow>
   py_error option \<times> loop_state" where
  "run_loop w ctx verbose df fp st =
     (let i = cycles st;
          st1 = st\<lparr>cycles := Suc i\<rparr>;
          pre = build_preprocessor (ls_profile st);
          candidates = select_models (ls_profile st) (seed ctx)
      in case train_models (w_split w i) (w_fit w i) df (ctx_target ctx) pre candidates
                (seed ctx) (test_size ctx) (output_dir ctx) verbose of
           Inl e \<Rightarrow> (Some e, st1)
         | Inr trained \<Rightarrow>
             (case evaluate_best (w_diagnose w i) trained (output_dir ctx) of
                Inl e \<Rightarrow> (Some e, st1)
              | Inr ev \<Rightarrow>
                  (let reflection = reflect (ls_profile st) (best_metrics ev) (eval_all_metrics ev)
                   in case w_persist w i of
                        Some e \<Rightarrow> (Some e, st1)
                      | None \<Rightarrow>
                          (case model (best_metrics ev) of
                             None \<Rightarrow> (Some (KeyError ''model''), st1)
                           | Some best_name \<Rightarrow>
                               (let (fs', mem') =
                                      upsert_dataset_record (ls_fs st) (ls_memory st) fp
                                        \<lparr>last_seen = w_now w i,
                                         record_target = ctx_target ctx,
                                         record_shape = shape (ls_profile st),
                                         record_best_model = best_name,
                                         record_best_metrics = best_metrics ev\<rparr>;
                                    st2 = st1\<lparr>ls_fs := fs', ls_memory := mem'\<rparr>
                                in if \<not> should_replan reflection then (None, st2)
                                   else if replan_count st \<ge> max_replans ctx then (None, st2)
                                   else
                                     (let (plan', profile') =
                                            apply_replan_strategy (ls_plan st) (ls_profile st) reflection
                                      in run_loop w ctx verbose df fp
                                           (st2\<lparr>replan_count := replan_count st + 1,
                                                ls_plan := plan', ls_profile := profile'\<rparr>)))))))"
  by pat_completeness auto

termination
  by (relation "measure (\<lambda>(w, ctx, verbose, df, fp, st). nat (max_replans ctx - replan_count st))")
     auto

declare run_loop.simps [simp del]

text \<open>A world in which every candidate scores a macro-F1 of 0.4 in every cycle.\<close>

definition demo_low_fit :: "unit \<Rightarrow> preprocessor \<Rightarrow> string \<times> estimator \<Rightarrow> py_error + unit \<times> scores" where
  "demo_low_fit parts pre c = Inr ((), demo_scores 0.5 0.4)"

definition demo_world :: "(unit, unit) world" where
  "demo_world =
     \<lparr>w_split = (\<lambda>i. demo_split), w_fit = (\<lambda>i. demo_low_fit),
      w_diagnose = (\<lambda>i r cm_path. Inr ''classification report''),
      w_persist = (\<lambda>i. None), w_now = (\<lambda>i. ''2026-01-01T00:00:00Z'')\<rparr>"

definition demo_ctx :: RunContext where
  "demo_ctx =
     \<lparr>run_id = ''20260101_000000_0a1b2c3d'', started_at = ''2026-01-01T00:00:00Z'',
      data_path = ''data/example_dataset.csv'', ctx_target = ''target'',
      output_dir = ''outputs/20260101_000000_0a1b2c3d'', seed = 42, test_size = 0.2,
      max_replans = 2\<rparr>"

definition demo_state :: loop_state where
  "demo_state =
     \<lparr>ls_fs = Map.empty,
      ls_memory = \<lparr>path = ''agent_memory.json'',
                    data = \<lparr>datasets = Some Map.empty, memory_notes = Some []\<rparr>\<rparr>,
      ls_plan = [''profile_dataset'', ''build_preprocessor'', ''select_models'',
                 ''consider_imbalance_strategy'', ''train_models'', ''evaluate'', ''reflect'',
                 ''write_report''],
      ls_profile = demo_profile, replan_count = 0, cycles = 0\<rparr>"

section \<open>Properties of the planner\<close>

lemma py_index_base_train: "py_index base_plan ''train_models'' = Some 3"
  by (simp add: base_plan_def)

lemma create_plan_imbalanced:
  assumes "imbalance_ratio p = Some (Some r)" and "r \<ge> 3"
  shows "create_plan p hint =
           Inr [''profile_dataset'', ''build_preprocessor'', ''select_models'',
                ''consider_imbalance_strategy'', ''train_models'',
                ''evaluate'', ''reflect'', ''write_report'']"
proof -
  from assms have "get_or (imbalance_ratio p) 1.0 = r"
    by (simp add: get_or_def)
  with assms(2) show ?thesis
    by (simp add: create_plan_def Let_def py_index_base_train py_insert_def)
       (simp add: base_plan_def)
qed

text \<open>
  Claim C3. For a profile whose \<open>imbalance_ratio\<close> is a number of at least 3.0,
  \<open>create_plan\<close> returns a plan in which the task \<open>consider_imbalance_strategy\<close> occurs
  exactly once, at the position immediately before \<open>train_models\<close> and after
  \<open>build_preprocessor\<close>; the plan is one longer than the base plan, and without the extra
  task it is the base plan, so the order of the seven stages is kept.
\<close>

theorem create_plan_imbalance_task:
  assumes "imbalance_ratio p = Some (Some r)" and "r \<ge> 3"
  shows "\<exists>plan i j. create_plan p hint = Inr plan
           \<and> py_index plan ''consider_imbalance_strategy'' = Some i
           \<and> py_index plan ''train_models'' = Some (Suc i)
           \<and> py_index plan ''build_preprocessor'' = Some j \<and> j < i
           \<and> count_list plan ''consider_imbalance_strategy'' = 1
           \<and> length plan = Suc (length base_plan)
           \<and> filter (\<lambda>t. t \<noteq> ''consider_imbalance_strategy'') plan = base_plan
           \<and> base_plan = [''profile_dataset'', ''build_preprocessor'', ''select_models'',
                ''train_models'', ''evaluate'', ''reflect'', ''write_report'']"
  using create_plan_imbalanced [OF assms, of hint]
  by (simp add: base_plan_def)

theorem create_plan_imbalance_task_witness:
  "imbalance_ratio demo_profile = Some (Some 4.5) \<and> (4.5::real) \<ge> 3
   \<and> create_plan demo_profile (None :: unit option) =
       Inr [''profile_dataset'', ''build_preprocessor'', ''select_models'',
            ''consider_imbalance_strategy'', ''train_models'',
            ''evaluate'', ''reflect'', ''write_report'']"
proof -
  have h1: "imbalance_ratio demo_profile = Some (Some 4.5)"
    by (simp add: demo_profile_def demo_profile_with_def)
  have h2: "(4.5::real) \<ge> 3" by simp
  from create_plan_imbalance_task [OF h1 h2, of "None :: unit option"]
  obtain plan where
    p: "create_plan demo_profile (None :: unit option) = Inr plan"
    and n: "length plan = Suc (length base_plan)"
    by blast
  have "create_plan demo_profile (None :: unit option) =
       Inr [''profile_dataset'', ''build_preprocessor'', ''select_models'',
            ''consider_imbalance_strategy'', ''train_models'',
            ''evaluate'', ''reflect'', ''write_report'']"
    by (simp add: create_plan_def demo_profile_def demo_profile_with_def get_or_def base_plan_def py_insert_def)
  with h1 h2 p n show ?thesis by simp
qed

text \<open>
  Claim C10. When the key \<open>imbalance_ratio\<close> is absent, or maps to \<open>None\<close> or to zero,
  \<open>create_plan\<close> returns exactly the seven base task labels in their order, which is also
  what it returns for the same profile with the ratio 1.0.
\<close>

theorem create_plan_default_ratio:
  assumes "imbalance_ratio p = None \<or> imbalance_ratio p = Some None
             \<or> imbalance_ratio p = Some (Some 0)"
  shows "create_plan p hint =
           Inr [''profile_dataset'', ''build_preprocessor'', ''select_models'',
                ''train_models'', ''evaluate'', ''reflect'', ''write_report'']
         \<and> create_plan p hint = create_plan (p\<lparr>imbalance_ratio := Some (Some 1.0)\<rparr>) hint"
proof -
  from assms have "get_or (imbalance_ratio p) 1.0 = 1"
    by (auto simp: get_or_def)
  then show ?thesis
    by (simp add: create_plan_def get_or_def base_plan_def)
qed

theorem create_plan_default_ratio_witness:
  "create_plan (demo_profile\<lparr>imbalance_ratio := None\<rparr>) (None :: unit option) = Inr base_plan
   \<and> create_plan (demo_profile\<lparr>imbalance_ratio := Some None\<rparr>) (None :: unit option) = Inr base_plan
   \<and> create_plan (demo_profile\<lparr>imbalance_ratio := Some (Some 0)\<rparr>) (None :: unit option) = Inr base_plan"
  using create_plan_default_ratio [of "demo_profile\<lparr>imbalance_ratio := None\<rparr>" "None :: unit option"]
        create_plan_default_ratio [of "demo_profile\<lparr>imbalance_ratio := Some None\<rparr>" "None :: unit option"]
        create_plan_default_ratio [of "demo_profile\<lparr>imbalance_ratio := Some (Some 0)\<rparr>" "None :: unit option"]
  by (simp add: base_plan_def)

section \<open>Properties of the reflector\<close>


section \<open>Properties of the replan strategy\<close>

lemma get_list_less: "get_list h a = Some xs \<Longrightarrow> a < length h"
  by (simp add: get_list_def split: if_splits)

lemma get_dict_less: "get_dict h a = Some d \<Longrightarrow> a < length h"
  by (simp add: get_dict_def split: if_splits)

lemma get_list_append_old: "a < length h \<Longrightarrow> get_list (h @ h') a = get_list h a"
  by (simp add: get_list_def nth_append)

lemma get_dict_append_old: "a < length h \<Longrightarrow> get_dict (h @ h') a = get_dict h a"
  by (simp add: get_dict_def nth_append)

lemma get_list_append_new:
  "get_list (h @ h') (length h + i) = get_list h' i"
  by (simp add: get_list_def nth_append)

lemma get_dict_append_new:
  "get_dict (h @ h') (length h + i) = get_dict h' i"
  by (simp add: get_dict_def nth_append)

lemma apply_replan_strategy_heap_result:
  assumes p: "get_list h plan = Some p"
    and d: "get_dict h prof = Some d"
    and ns: "(case notes d of None \<Rightarrow> Some [] | Some a \<Rightarrow> get_list h a) = Some ns"
  shows "apply_replan_strategy_heap h plan prof r =
           Some (h @ [ListObj (p @ [''replan_attempt'']),
                      DictObj (d\<lparr>notes := Some (length h + 3)\<rparr>),
                      ListObj [],
                      ListObj (ns @ [''Replan: adjusting strategy after reflection.''])],
                 length h, Suc (length h))"
proof -
  note dl = get_dict_less [OF d]
  have d1: "get_dict (h @ [ListObj p]) prof = Some d"
    using d dl by (simp add: get_dict_append_old)
  have d2: "get_dict (h @ [ListObj p, DictObj d]) (Suc (length h)) = Some d"
    using get_dict_append_new [of h "[ListObj p, DictObj d]" 1] by (simp add: get_dict_def)
  have src: "get_list (h @ [ListObj p, DictObj d, ListObj []])
               (case notes d of None \<Rightarrow> Suc (Suc (length h)) | Some a \<Rightarrow> a) = Some ns"
  proof (cases "notes d")
    case None
    with ns show ?thesis
      using get_list_append_new [of h "[ListObj p, DictObj d, ListObj []]" 2]
      by (simp add: get_list_def)
  next
    case (Some a)
    with ns have "get_list h a = Some ns" by simp
    with Some show ?thesis
      by (simp add: get_list_append_old get_list_less)
  qed
  have tl: "list_append (h @ [ListObj p, DictObj d, ListObj [], ListObj ns])
              (Suc (Suc (Suc (length h)))) x =
            Some (h @ [ListObj p, DictObj d, ListObj [], ListObj (ns @ [x])])" for x
    by (simp add: list_append_def get_list_def nth_append list_update_append)
  have ds: "dict_set_notes (h @ [ListObj p, DictObj d, ListObj [], ListObj ns']) (Suc (length h)) v =
            Some (h @ [ListObj p, DictObj (d\<lparr>notes := Some v\<rparr>), ListObj [], ListObj ns'])" for v ns'
    by (simp add: dict_set_notes_def get_dict_def nth_append list_update_append)
  have pa: "list_append (h @ [ListObj p, d', e, f]) (length h) x =
            Some (h @ [ListObj (p @ [x]), d', e, f])" for x d' e f
    by (simp add: list_append_def get_list_def nth_append list_update_append)
  show ?thesis
  proof (cases "notes d")
    case None
    with src show ?thesis
      by (simp add: apply_replan_strategy_heap_def alloc_def p d1 d2 tl ds pa)
  next
    case (Some a)
    with src show ?thesis
      by (simp add: apply_replan_strategy_heap_def alloc_def p d1 d2 tl ds pa)
  qed
qed

lemma read_profile_append_old:
  assumes "read_profile h a = Some pv"
  shows "read_profile (h @ h') a = Some pv"
proof -
  from assms obtain d where d: "get_dict h a = Some d"
    by (auto simp: read_profile_def split: Option.bind_splits)
  show ?thesis
  proof (cases "notes d")
    case None
    with assms d show ?thesis
      by (simp add: read_profile_def get_dict_append_old get_dict_less)
  next
    case (Some n)
    with assms d obtain ns where "get_list h n = Some ns"
      by (auto simp: read_profile_def split: Option.bind_splits)
    with assms d Some show ?thesis
      by (simp add: read_profile_def get_dict_append_old get_dict_less
                    get_list_append_old get_list_less)
  qed
qed

text \<open>
  Claim C4. \<open>apply_replan_strategy\<close> changes no object that existed when it was called: the
  plan and the profile passed to it (and the profile's list of notes) hold afterwards what
  they held before. It returns a new plan object and a new profile object; the argument plan
  is a prefix of the new plan, which is therefore not shorter and keeps the entries in their
  order, and the notes of the argument profile are a prefix of the notes of the new profile.
  The contents returned are those of the function on values.
\<close>

theorem apply_replan_strategy_frame:
  assumes "get_list h plan = Some p" and "read_profile h prof = Some pv"
  shows "\<exists>h' new_plan new_profile p' pv'.
           apply_replan_strategy_heap h plan prof r = Some (h', new_plan, new_profile)
         \<and> take (length h) h' = h
         \<and> get_list h' plan = Some p \<and> read_profile h' prof = Some pv
         \<and> new_plan \<noteq> plan \<and> new_profile \<noteq> prof
         \<and> get_list h' new_plan = Some p' \<and> read_profile h' new_profile = Some pv'
         \<and> prefix p p' \<and> length p \<le> length p'
         \<and> prefix (case notes pv of None \<Rightarrow> [] | Some ns \<Rightarrow> ns)
                   (case notes pv' of None \<Rightarrow> [] | Some ns \<Rightarrow> ns)
         \<and> (p', pv') = apply_replan_strategy p pv r"
proof -
  from assms(2) obtain d where d: "get_dict h prof = Some d"
    by (auto simp: read_profile_def split: Option.bind_splits)
  define ns where "ns = (case notes pv of None \<Rightarrow> [] | Some ns \<Rightarrow> ns)"
  have ns: "(case notes d of None \<Rightarrow> Some [] | Some a \<Rightarrow> get_list h a) = Some ns"
    using assms(2) d
    by (auto simp: read_profile_def ns_def split: Option.bind_splits option.splits)
  define h' where "h' = h @ [ListObj (p @ [''replan_attempt'']),
                      DictObj (d\<lparr>notes := Some (length h + 3)\<rparr>),
                      ListObj [],
                      ListObj (ns @ [''Replan: adjusting strategy after reflection.''])]"
  have res: "apply_replan_strategy_heap h plan prof r = Some (h', length h, Suc (length h))"
    unfolding h'_def by (rule apply_replan_strategy_heap_result [OF assms(1) d ns])
  have old: "take (length h) h' = h" by (simp add: h'_def)
  have p_old: "get_list h' plan = Some p"
    using assms(1) by (simp add: h'_def get_list_append_old get_list_less)
  have pv_old: "read_profile h' prof = Some pv"
    unfolding h'_def by (rule read_profile_append_old [OF assms(2)])
  have fresh: "length h \<noteq> plan" "Suc (length h) \<noteq> prof"
    using get_list_less [OF assms(1)] get_dict_less [OF d] by simp_all
  have p_new: "get_list h' (length h) = Some (p @ [''replan_attempt''])"
    using get_list_append_new [of h _ 0] by (simp add: h'_def get_list_def)
  have pv_eq: "pv = \<lparr>shape = shape d, columns = columns d, missing_pct = missing_pct d,
             target = target d, target_dtype = target_dtype d,
             is_classification = is_classification d, feature_types = feature_types d,
             n_unique_by_col = n_unique_by_col d, notes = notes pv,
             class_counts = class_counts d, imbalance_ratio = imbalance_ratio d\<rparr>"
    using assms(2) d by (auto simp: read_profile_def split: Option.bind_splits)
  have pv_new: "read_profile h' (Suc (length h)) =
      Some (pv\<lparr>notes := Some (ns @ [''Replan: adjusting strategy after reflection.''])\<rparr>)"
    by (subst pv_eq) (simp add: read_profile_def h'_def get_dict_def get_list_def nth_append)
  have pure: "(p @ [''replan_attempt''],
               pv\<lparr>notes := Some (ns @ [''Replan: adjusting strategy after reflection.''])\<rparr>)
              = apply_replan_strategy p pv r"
    by (simp add: apply_replan_strategy_def ns_def)
  show ?thesis
    using res old p_old pv_old fresh p_new pv_new pure
    by (auto simp: ns_def)
qed

theorem apply_replan_strategy_frame_witness:
  "get_list demo_heap 0 = Some base_plan \<and> read_profile demo_heap 2 = Some demo_profile
   \<and> (\<exists>h'. apply_replan_strategy_heap demo_heap 0 2 demo_reflection = Some (h', 3, 4)
          \<and> take 3 h' = demo_heap
          \<and> get_list h' 0 = Some base_plan
          \<and> get_list h' 3 = Some (base_plan @ [''replan_attempt''])
          \<and> read_profile h' 2 = Some demo_profile)"
proof -
  have h1: "get_list demo_heap 0 = Some base_plan"
    by (simp add: demo_heap_def get_list_def)
  have h2: "read_profile demo_heap 2 = Some demo_profile"
    by (simp add: demo_heap_def read_profile_def get_dict_def get_list_def
                  demo_profile_def demo_profile_with_def)
  have len: "length demo_heap = 3" by (simp add: demo_heap_def)
  from apply_replan_strategy_frame [OF h1 h2, of demo_reflection]
  obtain h' new_plan new_profile p' pv' where
    r: "apply_replan_strategy_heap demo_heap 0 2 demo_reflection = Some (h', new_plan, new_profile)"
    and t: "take (length demo_heap) h' = demo_heap"
    and o: "get_list h' 0 = Some base_plan" "read_profile h' 2 = Some demo_profile"
    and n: "get_list h' new_plan = Some p'"
    and e: "(p', pv') = apply_replan_strategy base_plan demo_profile demo_reflection"
    by blast
  have "apply_replan_strategy_heap demo_heap 0 2 demo_reflection =
          Some (demo_heap @ [ListObj (base_plan @ [''replan_attempt'']),
                      DictObj (demo_profile_with (Some 1)\<lparr>notes := Some (length demo_heap + 3)\<rparr>),
                      ListObj [],
                      ListObj ([''Small dataset (<1000 rows): prefer simpler models / guard against overfitting.'']
                               @ [''Replan: adjusting strategy after reflection.''])],
                 length demo_heap, Suc (length demo_heap))"
    by (rule apply_replan_strategy_heap_result)
       (simp_all add: demo_heap_def get_list_def get_dict_def demo_profile_with_def)
  with r len have np: "new_plan = 3" "new_profile = 4" by simp_all
  from e have "p' = base_plan @ [''replan_attempt'']"
    by (simp add: apply_replan_strategy_def)
  with h1 h2 r t o n np len show ?thesis by simp
qed

section \<open>Properties of the memory store\<close>






lemma path_neq_backup: "p \<noteq> p @ ''.bak''"
  by simp






lemma map_of_dict_set:
  "map_of (dict_set kvs k v) k' = (if k' = k then Some v else map_of kvs k')"
  by (induction kvs) auto

lemma untyped_round_trip:
  assumes "map_of kvs ''datasets'' = None \<or> (\<exists>ds. map_of kvs ''datasets'' = Some (JObj ds))"
  shows "\<exists>fs' d'. upsert_dataset_record_untyped fs p (JObj kvs) fp r = Inr (fs', d')
           \<and> fs' p = Some (JsonOther d')
           \<and> get_dataset_record_untyped d' fp = Inr r"
  using assms
  by (auto simp: upsert_dataset_record_untyped_def get_dataset_record_untyped_def json_get_def
                 map_of_dict_set Let_def)

section \<open>Properties of the profiler\<close>











lemma counts_max_Max: "cs \<noteq> [] \<Longrightarrow> counts_max cs = Max (set cs)"
proof (induction cs)
  case Nil
  then show ?case by simp
next
  case (Cons c cs)
  show ?case
  proof (cases "cs = []")
    case True
    then show ?thesis by (simp add: counts_max_def)
  next
    case False
    with Cons.IH have "foldr max cs 0 = Max (set cs)" by (simp add: counts_max_def)
    with False show ?thesis by (simp add: counts_max_def)
  qed
qed

lemma foldr_min_Min: "foldr min cs (c::nat) = Min (set (c # cs))"
proof (induction cs)
  case Nil
  show ?case by simp
next
  case (Cons d cs)
  have "set (c # d # cs) = insert d (set (c # cs))" by auto
  moreover have "Min (insert d (set (c # cs))) = min d (Min (set (c # cs)))"
    by (rule Min_insert) simp_all
  ultimately have "Min (set (c # d # cs)) = min d (Min (set (c # cs)))" by simp
  with Cons.IH show ?case by (simp del: set_simps)
qed

lemma counts_min_Min: "cs \<noteq> [] \<Longrightarrow> counts_min cs = Min (set cs)"
  by (cases cs) (simp_all add: counts_min_def foldr_min_Min del: set_simps)

lemma double_one: "double 1 = 1"
  by (simp add: double_def float_exponent_def ilog2.simps round_half_even_def Let_def)

lemma py_round3_one: "py_round3 1 = 1"
  by (simp add: py_round3_def round_half_even_def Let_def double_one)

text \<open>
  Claim C8, as the code has it. When the target is a column of the dataset,
  \<open>profile_dataset\<close> returns a profile whose \<open>imbalance_ratio\<close> is \<open>None\<close> when the target
  is not classified as a classification target, 1.0 when it is and the table of class
  counts has fewer than two entries, and otherwise \<open>round(q, 3)\<close>, where \<open>q\<close> is the float
  quotient of the largest class count by the smallest one (by 1 when that is 0).
\<close>

theorem profile_dataset_imbalance_ratio:
  assumes "tgt \<in> set (df_columns df)"
  shows "\<exists>p. profile_dataset df tgt = Inr p
         \<and> is_classification p = is_classification_target (df_col df tgt)
         \<and> imbalance_ratio p =
             (if \<not> is_classification_target (df_col df tgt) then Some None
              else if length (value_counts (df_col df tgt)) < 2 then Some (Some 1.0)
              else Some (Some (py_round3
                     (float_div (Max (set (map snd (value_counts (df_col df tgt)))))
                        (max (Min (set (map snd (value_counts (df_col df tgt))))) 1)))))"
proof -
  define vc where "vc = value_counts (df_col df tgt)"
  have mx: "counts_max (map snd vc) = Max (set (map snd vc))" if "2 \<le> length vc"
    using that by (intro counts_max_Max) auto
  have mn: "counts_min (map snd vc) = Min (set (map snd vc))" if "2 \<le> length vc"
    using that by (intro counts_min_Min) auto
  show ?thesis
    using assms mx mn
    by (simp add: profile_dataset_def Let_def vc_def py_round3_one not_less)
qed

theorem profile_dataset_imbalance_ratio_witness:
  "''target'' \<in> set (df_columns (demo_df [''feature'', ''target'']))
   \<and> (\<exists>p. profile_dataset (demo_df [''feature'', ''target'']) ''target'' = Inr p
          \<and> is_classification p \<and> imbalance_ratio p = Some (Some 9))
   \<and> ''label'' \<in> set (df_columns demo_close_df)
   \<and> (\<exists>p. profile_dataset demo_close_df ''label'' = Inr p
          \<and> imbalance_ratio p = Some (Some (double 1.087))
          \<and> imbalance_ratio p \<noteq> Some (Some (double 1.088)))"
proof -
  have h: "''target'' \<in> set (df_columns (demo_df [''feature'', ''target'']))"
    by (simp add: demo_df_def)
  have c: "is_classification_target (df_col (demo_df [''feature'', ''target'']) ''target'')"
    by (simp add: is_classification_target_def demo_df_def demo_series_def)
  have v: "value_counts (df_col (demo_df [''feature'', ''target'']) ''target'')
             = [(Some ''0'', 180), (Some ''1'', 20)]"
    by (simp add: demo_df_def demo_series_def)
  have r: "py_round3 (float_div 180 20) = 9"
    by (simp add: py_round3_def float_div_def double_def float_exponent_def ilog2.simps
                  round_half_even_def Let_def)
  have first: "\<exists>p. profile_dataset (demo_df [''feature'', ''target'']) ''target'' = Inr p
          \<and> is_classification p \<and> imbalance_ratio p = Some (Some 9)"
    using profile_dataset_imbalance_ratio [OF h] c v r by simp
  have h': "''label'' \<in> set (df_columns demo_close_df)"
    by (simp add: demo_close_df_def)
  have c': "is_classification_target (df_col demo_close_df ''label'')"
    by (simp add: is_classification_target_def demo_close_df_def demo_series_def)
  have v': "value_counts (df_col demo_close_df ''label'') = [(Some ''no'', 87), (Some ''yes'', 80)]"
    by (simp add: demo_close_df_def demo_series_def)
  have r': "py_round3 (float_div 87 80) = double 1.087"
    by (simp add: py_round3_def float_div_def double_def float_exponent_def ilog2.simps
                  round_half_even_def Let_def)
  have ne: "double 1.087 \<noteq> double 1.088"
    by (simp add: double_def float_exponent_def ilog2.simps round_half_even_def Let_def)
  have second: "\<exists>p. profile_dataset demo_close_df ''label'' = Inr p
          \<and> imbalance_ratio p = Some (Some (double 1.087))
          \<and> imbalance_ratio p \<noteq> Some (Some (double 1.088))"
  proof -
    from profile_dataset_imbalance_ratio [OF h'] c' v' r'
    obtain p where p: "profile_dataset demo_close_df ''label'' = Inr p"
      and i: "imbalance_ratio p = Some (Some (double 1.087))"
      by auto
    from i ne have "imbalance_ratio p \<noteq> Some (Some (double 1.088))" by simp
    with p i show ?thesis by (intro exI [of _ p] conjI)
  qed
  show ?thesis
    by (intro conjI h first h' second)
qed

theorem profile_dataset_non_classification_ratio:
  "''price'' \<in> set (df_columns demo_regression_df)
   \<and> \<not> is_classification_target (df_col demo_regression_df ''price'')
   \<and> (\<exists>p. profile_dataset demo_regression_df ''price'' = Inr p
          \<and> imbalance_ratio p = Some None \<and> imbalance_ratio p \<noteq> Some (Some 1.0))
   \<and> (\<exists>p. profile_dataset demo_uneven_df ''label'' = Inr p
          \<and> imbalance_ratio p = Some (Some (double 3.333))
          \<and> imbalance_ratio p \<noteq> Some (Some (10 / 3)))"
proof -
  have a: "''price'' \<in> set (df_columns demo_regression_df)"
    by (simp add: demo_regression_df_def)
  have b: "\<not> is_classification_target (df_col demo_regression_df ''price'')"
    by (simp add: is_classification_target_def demo_regression_df_def demo_series_def)
  have c: "\<exists>p. profile_dataset demo_regression_df ''price'' = Inr p
          \<and> imbalance_ratio p = Some None \<and> imbalance_ratio p \<noteq> Some (Some 1.0)"
    using b by (simp add: profile_dataset_def Let_def demo_regression_df_def)
  have r: "py_round3 (float_div 10 3) = double 3.333"
    by (simp add: py_round3_def float_div_def double_def float_exponent_def ilog2.simps
                  round_half_even_def Let_def)
  have ne: "double 3.333 \<noteq> 10 / 3"
    by (simp add: double_def float_exponent_def ilog2.simps round_half_even_def Let_def)
  have d: "\<exists>p. profile_dataset demo_uneven_df ''label'' = Inr p
          \<and> imbalance_ratio p = Some (Some (double 3.333))
          \<and> imbalance_ratio p \<noteq> Some (Some (10 / 3))"
    using ne
    by (simp add: profile_dataset_def Let_def demo_uneven_df_def demo_series_def
                  is_classification_target_def counts_max_def counts_min_def r)
  show ?thesis
    by (intro conjI a b c d)
qed

section \<open>Properties of the training stage\<close>

lemma train_all_names:
  "train_all fit cs = Inr rs \<Longrightarrow> map name rs = map fst cs"
proof (induction cs arbitrary: rs)
  case Nil
  then show ?case by simp
next
  case (Cons c cs)
  then show ?case
    by (auto simp: train_one_def split: sum.splits prod.splits)
qed

lemma mset_insert_desc: "mset (insert_desc k x xs) = add_mset x (mset xs)"
  by (induction xs) simp_all

lemma mset_sort_desc: "mset (sort_desc k xs) = mset xs"
  by (induction xs) (simp_all add: sort_desc_def mset_insert_desc)

lemma set_insert_desc: "set (insert_desc k x xs) = insert x (set xs)"
  by (induction xs) auto

lemma tuple_gt_trans_ge:
  "\<not> tuple_gt b a \<Longrightarrow> \<not> tuple_gt c b \<Longrightarrow> \<not> tuple_gt c a"
  by (auto simp: tuple_gt_def)

lemma tuple_gt_ge: "tuple_gt a b \<Longrightarrow> \<not> tuple_gt b a"
  by (auto simp: tuple_gt_def)

lemma sorted_insert_desc:
  "sorted_wrt (\<lambda>a b. \<not> tuple_gt (k b) (k a)) xs \<Longrightarrow>
   sorted_wrt (\<lambda>a b. \<not> tuple_gt (k b) (k a)) (insert_desc k x xs)"
proof (induction xs)
  case Nil
  then show ?case by simp
next
  case (Cons y ys)
  show ?case
  proof (cases "tuple_gt (k y) (k x)")
    case True
    with Cons show ?thesis
      by (auto simp: set_insert_desc dest: tuple_gt_ge)
  next
    case False
    with Cons.prems show ?thesis
      by (auto dest: tuple_gt_trans_ge)
  qed
qed

lemma sorted_sort_desc: "sorted_wrt (\<lambda>a b. \<not> tuple_gt (k b) (k a)) (sort_desc k xs)"
  by (induction xs) (simp_all add: sort_desc_def sorted_insert_desc)

lemma filter_insert_desc:
  "filter (\<lambda>r. k r = v) (insert_desc k x xs) =
     (if k x = v then x # filter (\<lambda>r. k r = v) xs else filter (\<lambda>r. k r = v) xs)"
proof (induction xs)
  case Nil
  show ?case by simp
next
  case (Cons y ys)
  show ?case
  proof (cases "tuple_gt (k y) (k x)")
    case True
    then have ne: "k y \<noteq> k x" by (auto simp: tuple_gt_def)
    show ?thesis
    proof (cases "k x = v")
      case kx: True
      with ne have "k y \<noteq> v" by simp
      with True kx Cons.IH show ?thesis by simp
    next
      case kx: False
      with True Cons.IH show ?thesis by simp
    qed
  next
    case False
    then show ?thesis by simp
  qed
qed

lemma filter_sort_desc:
  "filter (\<lambda>r. k r = v) (sort_desc k xs) = filter (\<lambda>r. k r = v) xs"
  by (induction xs) (simp_all add: sort_desc_def filter_insert_desc)

lemma train_all_returns:
  "(\<And>c. c \<in> set cs \<Longrightarrow> \<exists>x. fit c = Inr x) \<Longrightarrow> \<exists>rs. train_all fit cs = Inr rs"
proof (induction cs)
  case Nil
  show ?case by simp
next
  case (Cons c cs)
  have "\<exists>x. fit c = Inr x" by (rule Cons.prems) simp
  then obtain x where x: "fit c = Inr x" ..
  have "\<exists>rs. train_all fit cs = Inr rs"
    by (rule Cons.IH) (rule Cons.prems, simp)
  then obtain rs where "train_all fit cs = Inr rs" ..
  with x show ?case by (cases x) (simp add: train_one_def)
qed

lemma train_all_length: "train_all fit cs = Inr rs \<Longrightarrow> length rs = length cs"
  using train_all_names [of fit cs rs] by (metis length_map)

lemma train_models_returns:
  assumes "tgt \<in> set (df_columns df)"
    and "split df tgt tsize sd
           (nunique (df_col df tgt) > 1 \<and> counts_min (notna_counts (df_col df tgt)) \<ge> 2) = Inr parts"
    and "\<And>c. c \<in> set candidates \<Longrightarrow> \<exists>x. fit parts pre c = Inr x"
    and "candidates \<noteq> []"
  shows "\<exists>payload. train_models split fit df tgt pre candidates sd tsize out verbose = Inr payload"
proof -
  from train_all_returns [of candidates "fit parts pre"] assms(3)
  obtain rs where rs: "train_all (fit parts pre) candidates = Inr rs" by blast
  from train_all_length [OF rs] assms(4) have "rs \<noteq> []" by auto
  then have "mset (sort_desc ranking_key rs) \<noteq> {#}" by (simp add: mset_sort_desc)
  then obtain b bs where "sort_desc ranking_key rs = b # bs"
    by (cases "sort_desc ranking_key rs") auto
  with assms(1,2) rs show ?thesis
    by (simp add: train_models_def Let_def)
qed

text \<open>
  Claim C9. Whenever \<open>train_models\<close> returns, its \<open>results\<close> are the results of all the
  candidates (one per candidate, named after it), ordered by the pair (balanced accuracy,
  macro-F1) descending: no later entry has a greater pair than an earlier one, and entries
  with the same pair stand in the order in which the candidates were declared. The list is
  not empty, \<open>best\<close> is its first element and \<open>all_metrics\<close> lists the metrics in the same
  order. (\<open>train_models_returns\<close>: it returns whenever the target is a column, the split
  and every fit succeed and there is a candidate.)
\<close>

theorem train_models_ranking:
  assumes "train_models split fit df tgt pre candidates sd tsize out verbose = Inr payload"
  shows "\<exists>stratify parts rs.
           split df tgt tsize sd stratify = Inr parts
         \<and> train_all (fit parts pre) candidates = Inr rs
         \<and> map name rs = map fst candidates
         \<and> mset (results payload) = mset rs
         \<and> sorted_wrt (\<lambda>a b. \<not> tuple_gt (ranking_key b) (ranking_key a)) (results payload)
         \<and> (\<forall>v. filter (\<lambda>r. ranking_key r = v) (results payload) = filter (\<lambda>r. ranking_key r = v) rs)
         \<and> results payload \<noteq> []
         \<and> best payload = hd (results payload)
         \<and> all_metrics payload = map r_metrics (results payload)"
proof -
  define stratify where
    "stratify = (nunique (df_col df tgt) > 1 \<and> counts_min (notna_counts (df_col df tgt)) \<ge> 2)"
  from assms have tgt: "tgt \<in> set (df_columns df)"
    by (auto simp: train_models_def split: if_splits)
  from assms tgt obtain parts where parts: "split df tgt tsize sd stratify = Inr parts"
    by (auto simp: train_models_def Let_def stratify_def split: sum.splits)
  from assms tgt parts obtain rs where rs: "train_all (fit parts pre) candidates = Inr rs"
    by (auto simp: train_models_def Let_def stratify_def split: sum.splits)
  from assms tgt parts rs obtain b bs where
    srt: "sort_desc ranking_key rs = b # bs"
    and pl: "payload = \<lparr>results = b # bs, best = b, all_metrics = map r_metrics (b # bs)\<rparr>"
    by (auto simp: train_models_def Let_def stratify_def split: list.splits)
  have res: "results payload = sort_desc ranking_key rs" by (simp add: pl srt)
  have "map name rs = map fst candidates" by (rule train_all_names [OF rs])
  moreover have "mset (results payload) = mset rs" by (simp add: res mset_sort_desc)
  moreover have "sorted_wrt (\<lambda>a b. \<not> tuple_gt (ranking_key b) (ranking_key a)) (results payload)"
    unfolding res by (rule sorted_sort_desc)
  moreover have "\<forall>v. filter (\<lambda>r. ranking_key r = v) (results payload) = filter (\<lambda>r. ranking_key r = v) rs"
    unfolding res by (simp add: filter_sort_desc)
  moreover have "results payload \<noteq> []" "best payload = hd (results payload)"
    "all_metrics payload = map r_metrics (results payload)" by (simp_all add: pl)
  ultimately show ?thesis using parts rs by blast
qed

lemma demo_train_all:
  "train_all (demo_fit () pre)
      [(''DummyMostFrequent'', DummyClassifier ''most_frequent''),
       (''LogisticRegression'', LogisticRegression 2000 (Some ''balanced'')),
       (''RandomForest'', RandomForestClassifier 300 42 (Some ''balanced'')),
       (''GradientBoosting'', GradientBoostingClassifier 42),
       (''SVC_RBF'', SVC ''rbf'' True (Some ''balanced''))] =
   Inr [demo_result ''DummyMostFrequent'' 0.5 0.47, demo_result ''LogisticRegression'' 0.8 0.7,
        demo_result ''RandomForest'' 0.9 0.85, demo_result ''GradientBoosting'' 0.8 0.75,
        demo_result ''SVC_RBF'' 0.8 0.7]"
  by (simp add: demo_fit_def demo_scores_def train_one_def demo_result_def)

lemma demo_sort_desc:
  "sort_desc ranking_key
       [demo_result ''DummyMostFrequent'' 0.5 0.47, demo_result ''LogisticRegression'' 0.8 0.7,
        demo_result ''RandomForest'' 0.9 0.85, demo_result ''GradientBoosting'' 0.8 0.75,
        demo_result ''SVC_RBF'' 0.8 0.7] =
       [demo_result ''RandomForest'' 0.9 0.85, demo_result ''GradientBoosting'' 0.8 0.75,
        demo_result ''LogisticRegression'' 0.8 0.7, demo_result ''SVC_RBF'' 0.8 0.7,
        demo_result ''DummyMostFrequent'' 0.5 0.47]"
proof -
  have k: "ranking_key (demo_result n ba f1) = (ba, f1)" for n ba f1
    by (simp add: ranking_key_def demo_result_def get_float_def)
  show ?thesis
    by (simp add: sort_desc_def k tuple_gt_def)
qed

theorem train_models_ranking_witness:
  "\<exists>payload.
     train_models demo_split demo_fit (demo_df [''feature'', ''target'']) ''target''
       (build_preprocessor demo_profile) (select_models demo_profile 42) 42 0.2 ''outputs/run'' False
       = Inr payload
   \<and> map name (results payload) =
        [''RandomForest'', ''GradientBoosting'', ''LogisticRegression'', ''SVC_RBF'', ''DummyMostFrequent'']
   \<and> name (best payload) = ''RandomForest''
   \<and> sorted_wrt (\<lambda>a b. \<not> tuple_gt (ranking_key b) (ranking_key a)) (results payload)"
proof -
  have c: "select_models demo_profile 42 =
      [(''DummyMostFrequent'', DummyClassifier ''most_frequent''),
       (''LogisticRegression'', LogisticRegression 2000 (Some ''balanced'')),
       (''RandomForest'', RandomForestClassifier 300 42 (Some ''balanced'')),
       (''GradientBoosting'', GradientBoostingClassifier 42),
       (''SVC_RBF'', SVC ''rbf'' True (Some ''balanced''))]"
    by (simp add: select_models_def demo_profile_def demo_profile_with_def get_or_def Let_def)
  have t: "''target'' \<in> set (df_columns (demo_df [''feature'', ''target'']))"
    by (simp add: demo_df_def)
  define payload where "payload =
     \<lparr>results = [demo_result ''RandomForest'' 0.9 0.85, demo_result ''GradientBoosting'' 0.8 0.75,
        demo_result ''LogisticRegression'' 0.8 0.7, demo_result ''SVC_RBF'' 0.8 0.7,
        demo_result ''DummyMostFrequent'' 0.5 0.47],
      best = demo_result ''RandomForest'' 0.9 0.85,
      all_metrics = map r_metrics [demo_result ''RandomForest'' 0.9 0.85, demo_result ''GradientBoosting'' 0.8 0.75,
        demo_result ''LogisticRegression'' 0.8 0.7, demo_result ''SVC_RBF'' 0.8 0.7,
        demo_result ''DummyMostFrequent'' 0.5 0.47]\<rparr>"
  have p: "train_models demo_split demo_fit (demo_df [''feature'', ''target'']) ''target''
       (build_preprocessor demo_profile) (select_models demo_profile 42) 42 0.2 ''outputs/run'' False
       = Inr payload"
    unfolding c train_models_def Let_def payload_def
    by (simp only: t demo_split_def demo_train_all demo_sort_desc
                   not_True_eq_False if_False sum.case list.case simp_thms)
  have n: "map name (results payload) =
        [''RandomForest'', ''GradientBoosting'', ''LogisticRegression'', ''SVC_RBF'', ''DummyMostFrequent'']"
    by (simp add: payload_def demo_result_def)
  from train_models_ranking [OF p] obtain stratify parts rs where
    s: "sorted_wrt (\<lambda>a b. \<not> tuple_gt (ranking_key b) (ranking_key a)) (results payload)"
    and b: "best payload = hd (results payload)"
    by (elim exE conjE)
  have r: "results payload = demo_result ''RandomForest'' 0.9 0.85 # tl (results payload)"
    by (simp add: payload_def)
  have "name (hd (results payload)) = ''RandomForest''"
    by (subst r) (simp add: demo_result_def)
  with b have nb: "name (best payload) = ''RandomForest''" by simp
  show ?thesis
    by (rule exI [of _ payload]) (intro conjI p n nb s)
qed

section \<open>Properties of the orchestrator loop\<close>

lemma apply_replan_strategy_length:
  "apply_replan_strategy plan prof r = (plan', prof') \<Longrightarrow> length plan' = Suc (length plan)"
  by (auto simp: apply_replan_strategy_def Let_def)

lemma run_loop_counts:
  "run_loop w ctx verbose df fp st = (out, st') \<Longrightarrow>
     replan_count st \<le> replan_count st'
   \<and> int (cycles st') = int (cycles st) + 1 + (replan_count st' - replan_count st)
   \<and> length (ls_plan st') = length (ls_plan st) + nat (replan_count st' - replan_count st)
   \<and> (replan_count st \<le> max_replans ctx \<longrightarrow> replan_count st' \<le> max_replans ctx)"
proof (induction w ctx verbose df fp st arbitrary: out st' rule: run_loop.induct)
  case (1 w ctx verbose df fp st)
  let ?i = "cycles st"
  let ?st1 = "st\<lparr>cycles := Suc ?i\<rparr>"
  let ?tm = "train_models (w_split w ?i) (w_fit w ?i) df (ctx_target ctx)
               (build_preprocessor (ls_profile st)) (select_models (ls_profile st) (seed ctx))
               (seed ctx) (test_size ctx) (output_dir ctx) verbose"
  note run = "1.prems" [unfolded run_loop.simps [of w ctx verbose df fp st]]
  show ?case
  proof (cases ?tm)
    case (Inl e)
    with run have "st' = ?st1" by (simp add: Let_def)
    then show ?thesis by simp
  next
    case tm: (Inr trained)
    show ?thesis
    proof (cases "evaluate_best (w_diagnose w ?i) trained (output_dir ctx)")
      case (Inl e)
      with run tm have "st' = ?st1" by (simp add: Let_def)
      then show ?thesis by simp
    next
      case ev: (Inr ev)
      let ?r = "reflect (ls_profile st) (best_metrics ev) (eval_all_metrics ev)"
      show ?thesis
      proof (cases "w_persist w ?i")
        case (Some e)
        with run tm ev have "st' = ?st1" by (simp add: Let_def)
        then show ?thesis by simp
      next
        case pers: None
        show ?thesis
        proof (cases "model (best_metrics ev)")
          case None
          with run tm ev pers have "st' = ?st1" by (simp add: Let_def)
          then show ?thesis by simp
        next
          case bm: (Some best_name)
          let ?up = "upsert_dataset_record (ls_fs st) (ls_memory st) fp
                       \<lparr>last_seen = w_now w ?i, record_target = ctx_target ctx,
                        record_shape = shape (ls_profile st), record_best_model = best_name,
                        record_best_metrics = best_metrics ev\<rparr>"
          obtain fs' mem' where up: "(fs', mem') = ?up" by (cases ?up) simp
          let ?st2 = "?st1\<lparr>ls_fs := fs', ls_memory := mem'\<rparr>"
          show ?thesis
          proof (cases "should_replan ?r \<and> \<not> max_replans ctx \<le> replan_count st")
            case False
            with run tm ev pers bm up [symmetric] have "st' = ?st2"
              by (auto simp: Let_def split: if_splits)
            then show ?thesis by simp
          next
            case True
            then have sr: "\<not> \<not> should_replan ?r" and nb: "\<not> max_replans ctx \<le> replan_count st"
              by simp_all
            let ?ap = "apply_replan_strategy (ls_plan st) (ls_profile st) ?r"
            obtain plan' profile' where ap: "(plan', profile') = ?ap" by (cases ?ap) simp
            let ?st3 = "?st2\<lparr>replan_count := replan_count st + 1, ls_plan := plan',
                             ls_profile := profile'\<rparr>"
            from run tm ev pers bm up [symmetric] True ap [symmetric]
            have rl: "run_loop w ctx verbose df fp ?st3 = (out, st')"
              by (simp add: Let_def)
            note ih = "1.IH" [OF refl refl refl refl tm ev refl pers bm refl up refl sr nb refl ap rl]
            from ap [symmetric] have "length plan' = Suc (length (ls_plan st))"
              by (rule apply_replan_strategy_length)
            with ih nb show ?thesis by (simp, linarith)
          qed
        qed
      qed
    qed
  qed
qed

text \<open>
  Claim C1. \<open>run_loop\<close> is a total function: for every behaviour of the stages outside the
  repository, hence for every sequence of reflections, also one that recommends
  replanning after every cycle, the loop ends. Started as \<open>run\<close> starts it, with no replan
  counted, and with a \<open>max_replans\<close> of \<open>N \<ge> 0\<close>, it ends with at most \<open>N\<close> replans and
  after at most \<open>N + 1\<close> cycles of training, evaluation and reflection: the number of
  cycles is the number of replans plus one, and each replan added one entry to the plan.
  (\<open>run_loop_persistent\<close>: when every cycle succeeds and recommends replanning, the loop
  makes exactly \<open>N\<close> replans.)
\<close>

theorem run_loop_bounded:
  assumes "0 \<le> max_replans ctx"
    and "replan_count st = 0" and "cycles st = 0"
    and "run_loop w ctx verbose df fp st = (out, st')"
  shows "0 \<le> replan_count st' \<and> replan_count st' \<le> max_replans ctx
         \<and> int (cycles st') = replan_count st' + 1
         \<and> int (cycles st') \<le> max_replans ctx + 1
         \<and> length (ls_plan st') = length (ls_plan st) + nat (replan_count st')"
  using run_loop_counts [OF assms(4)] assms(1-3) by simp

lemma train_models_Inr:
  assumes "train_models split fit df tgt pre candidates sd tsize out verbose = Inr payload"
  shows "\<exists>stratify parts rs.
           split df tgt tsize sd stratify = Inr parts
         \<and> train_all (fit parts pre) candidates = Inr rs
         \<and> results payload = sort_desc ranking_key rs
         \<and> results payload \<noteq> []
         \<and> best payload = hd (results payload)
         \<and> all_metrics payload = map r_metrics (results payload)"
proof -
  define stratify where
    "stratify = (nunique (df_col df tgt) > 1 \<and> counts_min (notna_counts (df_col df tgt)) \<ge> 2)"
  from assms have tgt: "tgt \<in> set (df_columns df)"
    by (auto simp: train_models_def split: if_splits)
  from assms tgt obtain parts where parts: "split df tgt tsize sd stratify = Inr parts"
    by (auto simp: train_models_def Let_def stratify_def split: sum.splits)
  from assms tgt parts obtain rs where rs: "train_all (fit parts pre) candidates = Inr rs"
    by (auto simp: train_models_def Let_def stratify_def split: sum.splits)
  from assms tgt parts rs obtain b bs where
    srt: "sort_desc ranking_key rs = b # bs"
    and pl: "payload = \<lparr>results = b # bs, best = b, all_metrics = map r_metrics (b # bs)\<rparr>"
    by (auto simp: train_models_def Let_def stratify_def split: list.splits)
  show ?thesis
    by (rule exI [of _ stratify], rule exI [of _ parts], rule exI [of _ rs])
       (simp add: parts rs srt pl)
qed

lemma train_all_set:
  "train_all fit cs = Inr rs \<Longrightarrow> r \<in> set rs \<Longrightarrow> \<exists>c \<in> set cs. train_one fit c = Inr r"
proof (induction cs arbitrary: rs)
  case Nil
  then show ?case by simp
next
  case (Cons c cs)
  then show ?case by (auto split: sum.splits)
qed

lemma should_replan_low_f1:
  "get_float (f1_macro ev) < 0.6 \<Longrightarrow> should_replan (reflect p ev ms)"
  by (simp add: reflect_def should_replan_def Let_def split: prod.splits option.splits)

lemma select_models_nonempty: "select_models p sd \<noteq> []"
  by (simp add: select_models_def Let_def)

lemma run_loop_persistent:
  assumes ok: "\<And>i (p :: string list profile). \<exists>trained ev bn.
        train_models (w_split w i) (w_fit w i) df (ctx_target ctx) (build_preprocessor p)
          (select_models p (seed ctx)) (seed ctx) (test_size ctx) (output_dir ctx) verbose = Inr trained
      \<and> evaluate_best (w_diagnose w i) trained (output_dir ctx) = Inr ev
      \<and> w_persist w i = None \<and> model (best_metrics ev) = Some bn
      \<and> should_replan (reflect p (best_metrics ev) (eval_all_metrics ev))"
  shows "replan_count st \<le> max_replans ctx \<Longrightarrow>
         fst (run_loop w ctx verbose df fp st) = None
         \<and> replan_count (snd (run_loop w ctx verbose df fp st)) = max_replans ctx"
  using ok
proof (induction w ctx verbose df fp st rule: run_loop.induct)
  case (1 w ctx verbose df fp st)
  let ?i = "cycles st"
  let ?st1 = "st\<lparr>cycles := Suc ?i\<rparr>"
  from "1.prems"(2) [of ?i "ls_profile st"] obtain trained ev best_name where
    tm: "train_models (w_split w ?i) (w_fit w ?i) df (ctx_target ctx)
               (build_preprocessor (ls_profile st)) (select_models (ls_profile st) (seed ctx))
               (seed ctx) (test_size ctx) (output_dir ctx) verbose = Inr trained"
    and ev: "evaluate_best (w_diagnose w ?i) trained (output_dir ctx) = Inr ev"
    and pers: "w_persist w ?i = None" and bm: "model (best_metrics ev) = Some best_name"
    and sr': "should_replan (reflect (ls_profile st) (best_metrics ev) (eval_all_metrics ev))"
    by (elim exE conjE)
  let ?r = "reflect (ls_profile st) (best_metrics ev) (eval_all_metrics ev)"
  let ?up = "upsert_dataset_record (ls_fs st) (ls_memory st) fp
               \<lparr>last_seen = w_now w ?i, record_target = ctx_target ctx,
                record_shape = shape (ls_profile st), record_best_model = best_name,
                record_best_metrics = best_metrics ev\<rparr>"
  obtain fs' mem' where up: "(fs', mem') = ?up" by (cases ?up) simp
  let ?st2 = "?st1\<lparr>ls_fs := fs', ls_memory := mem'\<rparr>"
  show ?case
  proof (cases "max_replans ctx \<le> replan_count st")
    case True
    with tm ev pers bm up [symmetric] sr'
    have "run_loop w ctx verbose df fp st = (None, ?st2)"
      by (subst run_loop.simps) (simp add: Let_def)
    with True "1.prems"(1) show ?thesis by simp
  next
    case nb: False
    from sr' have sr: "\<not> \<not> should_replan ?r" by simp
    let ?ap = "apply_replan_strategy (ls_plan st) (ls_profile st) ?r"
    obtain plan' profile' where ap: "(plan', profile') = ?ap" by (cases ?ap) simp
    let ?st3 = "?st2\<lparr>replan_count := replan_count st + 1, ls_plan := plan',
                     ls_profile := profile'\<rparr>"
    from tm ev pers bm up [symmetric] sr' nb ap [symmetric]
    have rl: "run_loop w ctx verbose df fp st = run_loop w ctx verbose df fp ?st3"
      by (subst run_loop.simps) (simp add: Let_def)
    have le: "replan_count ?st3 \<le> max_replans ctx" using nb by simp
    note ih = "1.IH" [OF refl refl refl refl tm ev refl pers bm refl up refl sr nb refl ap le "1.prems"(2)]
    with rl show ?thesis by simp
  qed
qed

lemma demo_world_ok:
  fixes p :: "string list profile"
  shows "\<exists>trained ev bn.
        train_models (w_split demo_world i) (w_fit demo_world i) (demo_df [''feature'', ''target''])
          (ctx_target demo_ctx) (build_preprocessor p)
          (select_models p (seed demo_ctx)) (seed demo_ctx) (test_size demo_ctx)
          (output_dir demo_ctx) False = Inr trained
      \<and> evaluate_best (w_diagnose demo_world i) trained (output_dir demo_ctx) = Inr ev
      \<and> w_persist demo_world i = None \<and> model (best_metrics ev) = Some bn
      \<and> should_replan (reflect p (best_metrics ev) (eval_all_metrics ev))"
proof -
  let ?cs = "select_models p (seed demo_ctx)"
  let ?pre = "build_preprocessor p"
  have "\<exists>payload. train_models demo_split demo_low_fit (demo_df [''feature'', ''target''])
          ''target'' ?pre ?cs (seed demo_ctx) (test_size demo_ctx) (output_dir demo_ctx) False
          = Inr payload"
  proof (rule train_models_returns [where parts = "()"])
    show "''target'' \<in> set (df_columns (demo_df [''feature'', ''target'']))"
      by (simp add: demo_df_def)
    show "?cs \<noteq> []" by (rule select_models_nonempty)
  qed (simp_all add: demo_split_def demo_low_fit_def)
  then obtain trained where
    tm: "train_models demo_split demo_low_fit (demo_df [''feature'', ''target''])
          ''target'' ?pre ?cs (seed demo_ctx) (test_size demo_ctx) (output_dir demo_ctx) False
          = Inr trained" ..
  from train_models_Inr [OF tm] obtain stratify parts rs where
    ta: "train_all (demo_low_fit parts ?pre) ?cs = Inr rs"
    and res: "results trained = sort_desc ranking_key rs"
    and ne: "results trained \<noteq> []"
    and b: "best trained = hd (results trained)"
    by (elim exE conjE)
  from ne b have "best trained \<in> set (results trained)" by simp
  also have "set (results trained) = set rs"
    unfolding res using mset_sort_desc [of ranking_key rs] by (metis set_mset_mset)
  finally have "best trained \<in> set rs" .
  from train_all_set [OF ta this] obtain c where
    c: "train_one (demo_low_fit parts ?pre) c = Inr (best trained)" by (elim bexE)
  then have bt: "best trained =
      \<lparr>name = fst c, pipeline = (),
       r_metrics = \<lparr>model = Some (fst c), accuracy = Some 0.5, balanced_accuracy = Some 0.5,
                    f1_macro = Some 0.4, precision_macro = Some 0.4, recall_macro = Some 0.5\<rparr>\<rparr>"
    by (simp add: train_one_def demo_low_fit_def demo_scores_def)
  have f1: "f1_macro (r_metrics (best trained)) = Some 0.4"
    and md: "model (r_metrics (best trained)) = Some (fst c)"
    by (simp_all add: bt)
  define ev where "ev = \<lparr>best_metrics = r_metrics (best trained),
      eval_all_metrics = all_metrics trained,
      confusion_matrix_path = path_join (output_dir demo_ctx) ''confusion_matrix.png'',
      classification_report = ''classification report''\<rparr>"
  have e: "evaluate_best (w_diagnose demo_world i) trained (output_dir demo_ctx) = Inr ev"
    by (simp add: evaluate_best_def demo_world_def ev_def Let_def)
  have t: "train_models (w_split demo_world i) (w_fit demo_world i) (demo_df [''feature'', ''target''])
          (ctx_target demo_ctx) ?pre ?cs (seed demo_ctx) (test_size demo_ctx)
          (output_dir demo_ctx) False = Inr trained"
    using tm by (simp add: demo_world_def demo_ctx_def)
  have pz: "w_persist demo_world i = None" by (simp add: demo_world_def)
  have m: "model (best_metrics ev) = Some (fst c)" by (simp add: ev_def md)
  have "get_float (f1_macro (best_metrics ev)) < 0.6"
    by (simp add: ev_def f1 get_float_def)
  then have sr: "should_replan (reflect p (best_metrics ev) (eval_all_metrics ev))"
    by (rule should_replan_low_f1)
  show ?thesis
    by (rule exI [of _ trained], rule exI [of _ ev], rule exI [of _ "fst c"])
       (intro conjI t e pz m sr)
qed

theorem run_loop_bounded_witness:
  "0 \<le> max_replans demo_ctx \<and> replan_count demo_state = 0 \<and> cycles demo_state = 0
   \<and> fst (run_loop demo_world demo_ctx False (demo_df [''feature'', ''target'']) ''fp_1'' demo_state) = None
   \<and> replan_count (snd (run_loop demo_world demo_ctx False (demo_df [''feature'', ''target''])
                          ''fp_1'' demo_state)) = 2
   \<and> cycles (snd (run_loop demo_world demo_ctx False (demo_df [''feature'', ''target''])
                          ''fp_1'' demo_state)) = 3
   \<and> length (ls_plan (snd (run_loop demo_world demo_ctx False (demo_df [''feature'', ''target''])
                          ''fp_1'' demo_state))) = 10"
proof -
  let ?run = "run_loop demo_world demo_ctx False (demo_df [''feature'', ''target'']) ''fp_1'' demo_state"
  have h1: "0 \<le> max_replans demo_ctx" by (simp add: demo_ctx_def)
  have h2: "replan_count demo_state = 0" and h3: "cycles demo_state = 0"
    by (simp_all add: demo_state_def)
  have h4: "?run = (fst ?run, snd ?run)" by simp
  note bound = run_loop_bounded [OF h1 h2 h3 h4]
  have le: "replan_count demo_state \<le> max_replans demo_ctx"
    by (simp add: demo_state_def demo_ctx_def)
  have pers: "fst ?run = None \<and> replan_count (snd ?run) = max_replans demo_ctx"
    by (rule run_loop_persistent [OF demo_world_ok le])
  have mr: "max_replans demo_ctx = 2" by (simp add: demo_ctx_def)
  have lp: "length (ls_plan demo_state) = 8" by (simp add: demo_state_def)
  from bound pers mr lp h1 h2 h3 show ?thesis by simp
qed

end
